theory Spec2Isabelle
  imports Main
begin

section \<open>Data model\<close>

text \<open>
  An analyzer carries a base URL, a display name and the indicator types it accepts
  (the three public fields of the ONYPHE class; \<open>entry.analyzer.name\<close> in background.ts).
\<close>

record Analyzer =
  endpoint :: string
  name :: string
  supportedTypes :: "string list"

subsection \<open>The ONYPHE searcher\<close>

text \<open>The constructor sets \<open>endpoint\<close> and \<open>name\<close>; \<open>supportedTypes\<close> is a field initialiser.\<close>

definition ONYPHE :: Analyzer where
  "ONYPHE = \<lparr>endpoint = ''https://www.onyphe.io'', name = ''ONYPHE'', supportedTypes = [''ip'']\<rparr>"

text \<open>The template literal \<^verbatim>\<open>`${this.endpoint}/ip/${query}`\<close>.\<close>

definition searchByIP :: "Analyzer \<Rightarrow> string \<Rightarrow> string" where
  "searchByIP this query = endpoint this @ ''/ip/'' @ query"

subsection \<open>Types used by background.ts\<close>

record AnalyzerEntry =
  analyzer :: Analyzer
  type :: string
  query :: string

text \<open>
  \<open>SearcherStates\<close> and \<open>ApiKeys\<close> are plain objects read from storage: a key is either
  absent or bound to a value.
\<close>

type_synonym SearcherStates = "string \<rightharpoonup> bool"

type_synonym ApiKeys = "string \<rightharpoonup> string"

record GeneralSettings =
  enableIDN :: bool

record UpdateContextMenuMessage =
  request :: string
  selection :: string

text \<open>A thrown value; the handlers read only its \<open>message\<close> property.\<close>

datatype error = Error (message: string)

text \<open>The four public fields of a \<open>Command\<close> that the click listener and the spec name.\<close>

record Command =
  action :: string
  cmd_query :: string
  cmd_type :: string
  target :: string

text \<open>
  Modelled from the spec: the source of the \<open>Selector\<close> class (./lib/selector) is
  missing. Its two methods are pure and never raise (they return empty sequences when
  nothing matches), so a selector is represented by the two sequences they return.
\<close>

record Selector =
  getSearcherEntries :: "AnalyzerEntry list"
  getScannerEntries :: "AnalyzerEntry list"

subsection \<open>The browser\<close>

text \<open>The options object handed to \<open>browser.contextMenus.create\<close>.\<close>

record MenuItem =
  contexts :: "string list"
  menuItemId :: string
  title :: string

text \<open>The options object handed to \<open>browser.notifications.create\<close>.\<close>

record NotificationOptions =
  iconUrl :: string
  notification_message :: string
  notification_title :: string
  notification_type :: string

text \<open>
  The persisted configuration behind \<open>browser.storage.sync\<close>: the value stored under
  the key \<open>searcherStates\<close> (\<open>None\<close> when the key is absent) and the stored credentials.
\<close>

record sync_storage =
  searcherStates :: "SearcherStates option"
  apiKeys :: "ApiKeys option"

text \<open>
  The part of the browser the extension acts on: the context menu, the tabs opened (by
  URL), the notifications shown, the lines written by \<open>console.error\<close>,
  \<open>browser.runtime.lastError\<close> and the synchronised storage.
\<close>

record browser =
  contextMenus :: "MenuItem list"
  tabs :: "string list"
  notifications :: "NotificationOptions list"
  console :: "string list"
  lastError :: "string option"
  storage_sync :: sync_storage

text \<open>
  How the browser answers each call. A promise of the WebExtension API may be rejected,
  and \<open>contextMenus.create\<close> reports a refused item through \<open>runtime.lastError\<close>;
  which calls are refused is not decided by the extension, so it is a parameter.
\<close>

record env =
  removeAll_rejects :: "error option"
  create_lastError :: "MenuItem list \<Rightarrow> MenuItem \<Rightarrow> string option"
  tabs_create_rejects :: "string \<Rightarrow> error option"
  notifications_create_rejects :: "NotificationOptions \<Rightarrow> error option"
  storage_get_rejects :: "string \<Rightarrow> error option"

text \<open>
  The code that background.ts imports and whose source is missing: the \<open>Command\<close>
  constructor and its three methods (./lib/command), the \<open>Selector\<close> constructor, and
  \<open>getApiKeys\<close> of ./utility, which reads the persisted configuration. Each is a
  parameter; a call that may throw returns a sum.
\<close>

record lib =
  Command_new :: "string \<Rightarrow> error + Command"
  Command_search :: "Command \<Rightarrow> error + string"
  Command_searchAll :: "Command \<Rightarrow> SearcherStates \<Rightarrow> error + string list"
  Command_scan :: "Command \<Rightarrow> ApiKeys \<Rightarrow> error + string"
  Selector_new :: "string \<Rightarrow> bool \<Rightarrow> Selector"
  getApiKeys :: "sync_storage \<Rightarrow> error + ApiKeys"

text \<open>
  An asynchronous function either completes or is rejected with an error, and leaves the
  browser in a new state either way.
\<close>

type_synonym 'a promise = "(error + 'a) \<times> browser"

text \<open>\<^verbatim>\<open>try { body } catch (e) { handler(e) }\<close>\<close>

definition try_catch ::
  "(browser \<Rightarrow> 'a promise) \<Rightarrow> (error \<Rightarrow> browser \<Rightarrow> 'a promise) \<Rightarrow> browser \<Rightarrow> 'a promise" where
  "try_catch body handler b =
     (case body b of
        (Inl e, b') \<Rightarrow> handler e b'
      | (Inr v, b') \<Rightarrow> (Inr v, b'))"

subsection \<open>Browser calls\<close>

definition tabs_create :: "env \<Rightarrow> string \<Rightarrow> browser \<Rightarrow> unit promise" where
  "tabs_create env url b =
     (case tabs_create_rejects env url of
        Some e \<Rightarrow> (Inl e, b)
      | None \<Rightarrow> (Inr (), b\<lparr>tabs := tabs b @ [url]\<rparr>))"

definition notifications_create :: "env \<Rightarrow> NotificationOptions \<Rightarrow> browser \<Rightarrow> unit promise" where
  "notifications_create env options b =
     (case notifications_create_rejects env options of
        Some e \<Rightarrow> (Inl e, b)
      | None \<Rightarrow> (Inr (), b\<lparr>notifications := notifications b @ [options]\<rparr>))"

definition contextMenus_removeAll :: "env \<Rightarrow> browser \<Rightarrow> unit promise" where
  "contextMenus_removeAll env b =
     (case removeAll_rejects env of
        Some e \<Rightarrow> (Inl e, b)
      | None \<Rightarrow> (Inr (), b\<lparr>contextMenus := []\<rparr>))"

text \<open>
  \<open>contextMenus.create(options, callback)\<close>: the item is added, or refused with
  \<open>lastError\<close> set; the callback runs with that \<open>lastError\<close>, which is cleared afterwards.
\<close>

definition contextMenus_create :: "env \<Rightarrow> MenuItem \<Rightarrow> (browser \<Rightarrow> browser) \<Rightarrow> browser \<Rightarrow> browser" where
  "contextMenus_create env options callback b =
     (let b1 = (case create_lastError env (contextMenus b) options of
                  None \<Rightarrow> b\<lparr>contextMenus := contextMenus b @ [options], lastError := None\<rparr>
                | Some m \<Rightarrow> b\<lparr>lastError := Some m\<rparr>)
      in (callback b1)\<lparr>lastError := None\<rparr>)"

text \<open>\<open>browser.storage.sync.get("searcherStates")\<close>: the object holding that key, if stored.\<close>

definition storage_sync_get :: "env \<Rightarrow> string \<Rightarrow> browser \<Rightarrow> (SearcherStates option) promise" where
  "storage_sync_get env key b =
     (case storage_get_rejects env key of
        Some e \<Rightarrow> (Inl e, b)
      | None \<Rightarrow> (Inr (searcherStates (storage_sync b)), b))"

section \<open>background.ts\<close>

definition showNotification :: "env \<Rightarrow> string \<Rightarrow> browser \<Rightarrow> unit promise" where
  "showNotification env msg b =
     notifications_create env
       \<lparr>iconUrl = ''./icons/48.png'', notification_message = msg,
        notification_title = ''Mitaka'', notification_type = ''basic''\<rparr> b"

text \<open>The block guarded by \<open>try\<close> in \<open>search\<close>.\<close>

definition search_try :: "lib \<Rightarrow> env \<Rightarrow> Command \<Rightarrow> browser \<Rightarrow> unit promise" where
  "search_try l env command b =
     (case Command_search l command of
        Inl e \<Rightarrow> (Inl e, b)
      | Inr url \<Rightarrow> if url \<noteq> '''' then tabs_create env url b else (Inr (), b))"

definition search :: "lib \<Rightarrow> env \<Rightarrow> Command \<Rightarrow> browser \<Rightarrow> unit promise" where
  "search l env command =
     try_catch (search_try l env command) (\<lambda>err. showNotification env (message err))"

text \<open>\<^verbatim>\<open>for (const url of urls) { await browser.tabs.create({ url }); }\<close>\<close>

fun open_tabs :: "env \<Rightarrow> string list \<Rightarrow> browser \<Rightarrow> unit promise" where
  "open_tabs env [] b = (Inr (), b)"
| "open_tabs env (url # urls) b =
     (case tabs_create env url b of
        (Inl e, b') \<Rightarrow> (Inl e, b')
      | (Inr _, b') \<Rightarrow> open_tabs env urls b')"

text \<open>The block guarded by \<open>try\<close> in \<open>searchAll\<close>.\<close>

definition searchAll_try :: "lib \<Rightarrow> env \<Rightarrow> Command \<Rightarrow> browser \<Rightarrow> unit promise" where
  "searchAll_try l env command b =
     (case storage_sync_get env ''searcherStates'' b of
        (Inl e, b') \<Rightarrow> (Inl e, b')
      | (Inr config, b') \<Rightarrow>
          (let states = (case config of Some s \<Rightarrow> s | None \<Rightarrow> Map.empty) in
           case Command_searchAll l command states of
             Inl e \<Rightarrow> (Inl e, b')
           | Inr urls \<Rightarrow> open_tabs env urls b'))"

definition searchAll :: "lib \<Rightarrow> env \<Rightarrow> Command \<Rightarrow> browser \<Rightarrow> unit promise" where
  "searchAll l env command =
     try_catch (searchAll_try l env command) (\<lambda>err. showNotification env (message err))"

text \<open>The block guarded by \<open>try\<close> in \<open>scan\<close>; the keys are fetched before it.\<close>

definition scan_try :: "lib \<Rightarrow> env \<Rightarrow> Command \<Rightarrow> ApiKeys \<Rightarrow> browser \<Rightarrow> unit promise" where
  "scan_try l env command keys b =
     (case Command_scan l command keys of
        Inl e \<Rightarrow> (Inl e, b)
      | Inr url \<Rightarrow> if url \<noteq> '''' then tabs_create env url b else (Inr (), b))"

definition scan :: "lib \<Rightarrow> env \<Rightarrow> Command \<Rightarrow> browser \<Rightarrow> unit promise" where
  "scan l env command b =
     (case getApiKeys l (storage_sync b) of
        Inl e \<Rightarrow> (Inl e, b)
      | Inr keys \<Rightarrow>
          try_catch (scan_try l env command keys) (\<lambda>err. showNotification env (message err)) b)"

definition createContextMenuErrorHandler :: "browser \<Rightarrow> browser" where
  "createContextMenuErrorHandler b =
     (case lastError b of
        Some m \<Rightarrow> b\<lparr>console := console b @ [m]\<rparr>
      | None \<Rightarrow> b)"

text \<open>
  The first loop of \<open>createContextMenus\<close>, over the searcher entries; \<open>nonTextEntry\<close> is
  the variable it assigns.
\<close>

fun searcher_loop ::
  "env \<Rightarrow> SearcherStates \<Rightarrow> AnalyzerEntry list \<Rightarrow> AnalyzerEntry option \<Rightarrow> browser
   \<Rightarrow> AnalyzerEntry option \<times> browser" where
  "searcher_loop env states [] nonTextEntry b = (nonTextEntry, b)"
| "searcher_loop env states (entry # rest) nonTextEntry b =
     (let n = name (analyzer entry) in
      if states n \<noteq> None \<and> \<not> the (states n)
      then searcher_loop env states rest nonTextEntry b
      else
        let nonTextEntry' =
              (if type entry \<noteq> ''text'' \<and> nonTextEntry = None then Some entry else nonTextEntry);
            i = ''Search '' @ query entry @ '' as a '' @ type entry @ '' on '' @ n;
            t = ''Search this '' @ type entry @ '' on '' @ n;
            options = \<lparr>contexts = [''selection''], menuItemId = i, title = t\<rparr>
        in searcher_loop env states rest nonTextEntry'
             (contextMenus_create env options createContextMenuErrorHandler b))"

text \<open>The last loop, over the scanner entries.\<close>

fun scanner_loop :: "env \<Rightarrow> AnalyzerEntry list \<Rightarrow> browser \<Rightarrow> browser" where
  "scanner_loop env [] b = b"
| "scanner_loop env (entry # rest) b =
     (let n = name (analyzer entry);
          i = ''Scan '' @ query entry @ '' as a '' @ type entry @ '' on '' @ n;
          t = ''Scan this '' @ type entry @ '' on '' @ n;
          options = \<lparr>contexts = [''selection''], menuItemId = i, title = t\<rparr>
      in scanner_loop env rest (contextMenus_create env options createContextMenuErrorHandler b))"

text \<open>
  The statements of \<open>createContextMenus\<close> after
  \<^verbatim>\<open>await browser.contextMenus.removeAll()\<close>. None of them is awaited, so they run
  without suspension and cannot be rejected.
\<close>

definition createContextMenus_resume ::
  "lib \<Rightarrow> env \<Rightarrow> UpdateContextMenuMessage \<Rightarrow> SearcherStates \<Rightarrow> GeneralSettings \<Rightarrow> browser
   \<Rightarrow> browser" where
  "createContextMenus_resume l env msg states generalSettings b1 =
     (let text = selection msg;
          selector = Selector_new l text (enableIDN generalSettings);
          searcherEntries = getSearcherEntries selector;
          (nonTextEntry, b2) = searcher_loop env states searcherEntries None b1;
          b3 = (case nonTextEntry of
                  None \<Rightarrow> b2
                | Some nte \<Rightarrow>
                    (let i = ''Search '' @ query nte @ '' as a '' @ type nte @ '' on all'';
                         t = ''Search this '' @ type nte @ '' on all'';
                         options = \<lparr>contexts = [''selection''], menuItemId = i, title = t\<rparr>
                     in contextMenus_create env options createContextMenuErrorHandler b2));
          scannerEntries = getScannerEntries selector
      in scanner_loop env scannerEntries b3)"

text \<open>
  \<open>createContextMenus\<close> calls \<open>removeAll\<close> and is suspended at the \<open>await\<close> until the
  promise settles. The handlers of other events run in the meantime, among them other
  invocations of \<open>createContextMenus\<close>, which the message listener starts one per message
  without waiting for the previous one. \<open>during\<close> is what they do to the browser between
  the removal and the resumption.
\<close>

definition createContextMenus_interleaved ::
  "lib \<Rightarrow> env \<Rightarrow> UpdateContextMenuMessage \<Rightarrow> SearcherStates \<Rightarrow> GeneralSettings
   \<Rightarrow> (browser \<Rightarrow> browser) \<Rightarrow> browser \<Rightarrow> unit promise" where
  "createContextMenus_interleaved l env msg states generalSettings during b =
     (case contextMenus_removeAll env b of
        (Inl e, b') \<Rightarrow> (Inl e, b')
      | (Inr _, b1) \<Rightarrow>
          (Inr (), createContextMenus_resume l env msg states generalSettings (during b1)))"

text \<open>An invocation of \<open>createContextMenus\<close> during whose suspension no other handler runs.\<close>

definition createContextMenus ::
  "lib \<Rightarrow> env \<Rightarrow> UpdateContextMenuMessage \<Rightarrow> SearcherStates \<Rightarrow> GeneralSettings \<Rightarrow> browser
   \<Rightarrow> unit promise" where
  "createContextMenus l env msg states generalSettings b =
     createContextMenus_interleaved l env msg states generalSettings (\<lambda>b. b) b"

text \<open>The listener of \<open>browser.contextMenus.onClicked\<close>, given \<open>info.menuItemId\<close>.\<close>

definition onClicked :: "lib \<Rightarrow> env \<Rightarrow> string \<Rightarrow> browser \<Rightarrow> unit promise" where
  "onClicked l env i b =
     (case Command_new l i of
        Inl e \<Rightarrow> (Inl e, b)
      | Inr command \<Rightarrow>
          if action command = ''search'' then
            (if target command = ''all'' then searchAll l env command b
             else search l env command b)
          else if action command = ''scan'' then scan l env command b
          else (Inr (), b))"

section \<open>Specification-side notions\<close>

text \<open>An entry is enabled unless its analyzer's name is bound to \<open>false\<close>.\<close>

definition enabled :: "SearcherStates \<Rightarrow> AnalyzerEntry \<Rightarrow> bool" where
  "enabled states e \<longleftrightarrow> states (name (analyzer e)) \<noteq> Some False"

text \<open>The three kinds of menu item, as functions of the entry they come from.\<close>

definition searchItem :: "AnalyzerEntry \<Rightarrow> MenuItem" where
  "searchItem e =
     \<lparr>contexts = [''selection''],
      menuItemId = ''Search '' @ query e @ '' as a '' @ type e @ '' on '' @ name (analyzer e),
      title = ''Search this '' @ type e @ '' on '' @ name (analyzer e)\<rparr>"

definition searchAllItem :: "AnalyzerEntry \<Rightarrow> MenuItem" where
  "searchAllItem e =
     \<lparr>contexts = [''selection''],
      menuItemId = ''Search '' @ query e @ '' as a '' @ type e @ '' on all'',
      title = ''Search this '' @ type e @ '' on all''\<rparr>"

definition scanItem :: "AnalyzerEntry \<Rightarrow> MenuItem" where
  "scanItem e =
     \<lparr>contexts = [''selection''],
      menuItemId = ''Scan '' @ query e @ '' as a '' @ type e @ '' on '' @ name (analyzer e),
      title = ''Scan this '' @ type e @ '' on '' @ name (analyzer e)\<rparr>"

text \<open>The first enabled entry whose type is not \<open>text\<close>, in the order of the sequence.\<close>

definition firstNonText :: "SearcherStates \<Rightarrow> AnalyzerEntry list \<Rightarrow> AnalyzerEntry option" where
  "firstNonText states es = find (\<lambda>e. enabled states e \<and> type e \<noteq> ''text'') es"

text \<open>The \<open>all\<close> item of a menu build: none, or the one of the first enabled non-text entry.\<close>

definition allItems :: "SearcherStates \<Rightarrow> AnalyzerEntry list \<Rightarrow> MenuItem list" where
  "allItems states es =
     (case firstNonText states es of None \<Rightarrow> [] | Some e \<Rightarrow> [searchAllItem e])"

text \<open>
  The items one menu build asks the browser for, in order, as a function of the selected
  text and the settings.
\<close>

definition requested ::
  "lib \<Rightarrow> UpdateContextMenuMessage \<Rightarrow> SearcherStates \<Rightarrow> GeneralSettings \<Rightarrow> MenuItem list" where
  "requested l msg states generalSettings =
     (let selector = Selector_new l (selection msg) (enableIDN generalSettings) in
      map searchItem (filter (enabled states) (getSearcherEntries selector))
      @ allItems states (getSearcherEntries selector)
      @ map scanItem (getScannerEntries selector))"

text \<open>Asking the browser for a sequence of items, each with the error-logging callback.\<close>

fun create_all :: "env \<Rightarrow> MenuItem list \<Rightarrow> browser \<Rightarrow> browser" where
  "create_all env [] b = b"
| "create_all env (i # is) b =
     create_all env is (contextMenus_create env i createContextMenuErrorHandler b)"

text \<open>A browser that accepts every menu item.\<close>

definition accepts_items :: "env \<Rightarrow> bool" where
  "accepts_items env \<longleftrightarrow> (\<forall>m i. create_lastError env m i = None)"

text \<open>The states \<open>searchAll\<close> derives from a configuration: the stored ones, or none.\<close>

definition statesOf :: "sync_storage \<Rightarrow> SearcherStates" where
  "statesOf s = (case searcherStates s of Some st \<Rightarrow> st | None \<Rightarrow> Map.empty)"

text \<open>The notification \<open>showNotification\<close> asks for.\<close>

definition mitakaNotification :: "string \<Rightarrow> NotificationOptions" where
  "mitakaNotification msg =
     \<lparr>iconUrl = ''./icons/48.png'', notification_message = msg,
      notification_title = ''Mitaka'', notification_type = ''basic''\<rparr>"

section \<open>Example inputs\<close>

text \<open>A browser that accepts every call, and an empty browser state.\<close>

definition env_ok :: env where
  "env_ok =
     \<lparr>removeAll_rejects = None, create_lastError = (\<lambda>m i. None),
      tabs_create_rejects = (\<lambda>url. None), notifications_create_rejects = (\<lambda>opts. None),
      storage_get_rejects = (\<lambda>key. None)\<rparr>"

definition browser0 :: browser where
  "browser0 =
     \<lparr>contextMenus = [], tabs = [], notifications = [], console = [], lastError = None,
      storage_sync = \<lparr>searcherStates = None, apiKeys = None\<rparr>\<rparr>"

text \<open>A browser that refuses every notification.\<close>

definition env_no_notifications :: env where
  "env_no_notifications =
     env_ok\<lparr>notifications_create_rejects := (\<lambda>opts. Some (Error ''notifications unavailable''))\<rparr>"

text \<open>A second analyzer, offered both as a searcher and as a scanner.\<close>

definition VirusTotal :: Analyzer where
  "VirusTotal =
     \<lparr>endpoint = ''https://www.virustotal.com'', name = ''VirusTotal'',
      supportedTypes = [''ip'', ''text'']\<rparr>"

definition example_searcherEntries :: "AnalyzerEntry list" where
  "example_searcherEntries =
     [\<lparr>analyzer = VirusTotal, type = ''text'', query = ''8.8.8.8''\<rparr>,
      \<lparr>analyzer = VirusTotal, type = ''ip'', query = ''8.8.8.8''\<rparr>,
      \<lparr>analyzer = ONYPHE, type = ''ip'', query = ''8.8.8.8''\<rparr>]"

definition example_scannerEntries :: "AnalyzerEntry list" where
  "example_scannerEntries = [\<lparr>analyzer = VirusTotal, type = ''ip'', query = ''8.8.8.8''\<rparr>]"

definition example_message :: UpdateContextMenuMessage where
  "example_message = \<lparr>request = ''updateContextMenu'', selection = ''8.8.8.8''\<rparr>"

definition example_settings :: GeneralSettings where
  "example_settings = \<lparr>enableIDN = True\<rparr>"

text \<open>Settings that disable VirusTotal and say nothing about ONYPHE.\<close>

definition example_states :: SearcherStates where
  "example_states = [''VirusTotal'' \<mapsto> False]"

text \<open>
  A library whose selector returns the entries above, whose commands resolve to URLs
  built from the query (a search on all leaves out the disabled analyzers, a scan needs
  a key), and whose parser yields a command with the action \<open>open\<close>.
\<close>

definition example_command :: Command where
  "example_command =
     \<lparr>action = ''search'', cmd_query = ''8.8.8.8'', cmd_type = ''ip'', target = ''ONYPHE''\<rparr>"

definition example_lib :: lib where
  "example_lib =
     \<lparr>Command_new = (\<lambda>i. Inr (example_command\<lparr>action := ''open''\<rparr>)),
      Command_search = (\<lambda>c. Inr (searchByIP ONYPHE (cmd_query c))),
      Command_searchAll =
        (\<lambda>c states.
           Inr (map (\<lambda>a. searchByIP a (cmd_query c))
                  (filter (\<lambda>a. states (name a) \<noteq> Some False) [ONYPHE, VirusTotal]))),
      Command_scan =
        (\<lambda>c keys.
           case keys ''VirusTotal'' of
             None \<Rightarrow> Inl (Error ''Please set your VirusTotal API key'')
           | Some k \<Rightarrow> Inr (searchByIP VirusTotal (cmd_query c))),
      Selector_new =
        (\<lambda>text idn. \<lparr>getSearcherEntries = example_searcherEntries,
                       getScannerEntries = example_scannerEntries\<rparr>),
      getApiKeys = (\<lambda>s. Inr (case apiKeys s of Some k \<Rightarrow> k | None \<Rightarrow> Map.empty))\<rparr>"

text \<open>Two configurations: nothing stored, and VirusTotal disabled with a key stored.\<close>

definition storage_empty :: sync_storage where
  "storage_empty = \<lparr>searcherStates = None, apiKeys = None\<rparr>"

definition storage_configured :: sync_storage where
  "storage_configured =
     \<lparr>searcherStates = Some example_states, apiKeys = Some [''VirusTotal'' \<mapsto> ''secret'']\<rparr>"


text \<open>
  A library whose selector offers the selected text to ONYPHE as an address, an earlier
  message with another selection, and what a click on a search item does to the browser.
\<close>

definition lib_by_text :: lib where
  "lib_by_text =
     example_lib\<lparr>Selector_new :=
       (\<lambda>text idn. \<lparr>getSearcherEntries = [\<lparr>analyzer = ONYPHE, type = ''ip'', query = text\<rparr>],
                      getScannerEntries = []\<rparr>)\<rparr>"

definition earlier_message :: UpdateContextMenuMessage where
  "earlier_message = \<lparr>request = ''updateContextMenu'', selection = ''1.1.1.1''\<rparr>"

definition click_during :: "browser \<Rightarrow> browser" where
  "click_during b = snd (search example_lib env_ok example_command b)"

text \<open>A library whose commands throw, and one whose \<open>getApiKeys\<close> throws.\<close>

definition lib_throwing :: lib where
  "lib_throwing =
     example_lib\<lparr>Command_search := (\<lambda>c. Inl (Error ''boom'')),
       Command_searchAll := (\<lambda>c states. Inl (Error ''boom'')),
       Command_scan := (\<lambda>c keys. Inl (Error ''boom''))\<rparr>"

definition lib_no_keys :: lib where
  "lib_no_keys = example_lib\<lparr>getApiKeys := (\<lambda>s. Inl (Error ''storage unavailable''))\<rparr>"

section \<open>Properties\<close>

subsection \<open>The loops as sequences of requests\<close>

text \<open>
  The two loops and the assignment to \<open>nonTextEntry\<close> compute the sequence \<open>requested\<close>;
  the browser then accepts or refuses each item.
\<close>

lemma create_all_append: "create_all env (xs @ ys) b = create_all env ys (create_all env xs b)"
  by (induction xs arbitrary: b) simp_all

lemma searcher_loop_char:
  "searcher_loop env states es nte b =
     ((case nte of Some e \<Rightarrow> Some e | None \<Rightarrow> firstNonText states es),
      create_all env (map searchItem (filter (enabled states) es)) b)"
proof (induction es arbitrary: nte b)
  case Nil
  then show ?case by (simp add: firstNonText_def split: option.splits)
next
  case (Cons e es)
  show ?case
  proof (cases "states (name (analyzer e)) = Some False")
    case True
    then have c: "(states (name (analyzer e)) \<noteq> None \<and> \<not> the (states (name (analyzer e)))) = True"
      by simp
    show ?thesis
      unfolding searcher_loop.simps Let_def c
      using True by (simp add: Cons.IH enabled_def firstNonText_def split: option.splits)
  next
    case False
    then have c: "(states (name (analyzer e)) \<noteq> None \<and> \<not> the (states (name (analyzer e)))) = False"
      by (cases "states (name (analyzer e))") auto
    show ?thesis
      unfolding searcher_loop.simps Let_def c
      using False
      by (simp add: Cons.IH enabled_def searchItem_def firstNonText_def split: option.splits)
  qed
qed

lemma scanner_loop_char: "scanner_loop env es b = create_all env (map scanItem es) b"
  by (induction es arbitrary: b) (simp_all add: Let_def scanItem_def)

lemma createContextMenus_resume_char:
  "createContextMenus_resume l env msg states gs b =
     create_all env (requested l msg states gs) b"
  by (simp add: createContextMenus_resume_def searcher_loop_char scanner_loop_char
      requested_def allItems_def Let_def create_all_append searchAllItem_def
      split: option.splits)

lemma createContextMenus_interleaved_ok:
  assumes "removeAll_rejects env = None"
  shows "createContextMenus_interleaved l env msg states gs during b =
           (Inr (), create_all env (requested l msg states gs)
                      (during (b\<lparr>contextMenus := []\<rparr>)))"
  using assms
  by (simp add: createContextMenus_interleaved_def contextMenus_removeAll_def
      createContextMenus_resume_char)

lemma createContextMenus_interleaved_rejected:
  assumes "removeAll_rejects env = Some e"
  shows "createContextMenus_interleaved l env msg states gs during b = (Inl e, b)"
  using assms by (simp add: createContextMenus_interleaved_def contextMenus_removeAll_def)

lemma createContextMenus_ok:
  assumes "removeAll_rejects env = None"
  shows "createContextMenus l env msg states gs b =
           (Inr (), create_all env (requested l msg states gs) (b\<lparr>contextMenus := []\<rparr>))"
  using assms by (simp add: createContextMenus_def createContextMenus_interleaved_ok)

lemma createContextMenus_rejected:
  assumes "removeAll_rejects env = Some e"
  shows "createContextMenus l env msg states gs b = (Inl e, b)"
  using assms by (simp add: createContextMenus_def createContextMenus_interleaved_rejected)

lemma contextMenus_create_menu:
  "contextMenus (contextMenus_create env i createContextMenuErrorHandler b) =
     (case create_lastError env (contextMenus b) i of
        None \<Rightarrow> contextMenus b @ [i] | Some m \<Rightarrow> contextMenus b)"
  by (simp add: contextMenus_create_def createContextMenuErrorHandler_def Let_def
      split: option.splits)

lemma contextMenus_create_frame:
  "tabs (contextMenus_create env i createContextMenuErrorHandler b) = tabs b"
  "notifications (contextMenus_create env i createContextMenuErrorHandler b) = notifications b"
  "storage_sync (contextMenus_create env i createContextMenuErrorHandler b) = storage_sync b"
  by (simp_all add: contextMenus_create_def createContextMenuErrorHandler_def Let_def
      split: option.splits)

lemma create_all_accepted:
  "accepts_items env \<Longrightarrow> contextMenus (create_all env items b) = contextMenus b @ items"
  by (induction items arbitrary: b) (simp_all add: contextMenus_create_menu accepts_items_def)

lemma create_all_frame:
  "tabs (create_all env items b) = tabs b"
  "notifications (create_all env items b) = notifications b"
  "storage_sync (create_all env items b) = storage_sync b"
  by (induction items arbitrary: b) (simp_all add: contextMenus_create_frame)

lemma contextMenus_create_subset:
  "set (contextMenus (contextMenus_create env i createContextMenuErrorHandler b))
     \<subseteq> insert i (set (contextMenus b))"
  by (cases "create_lastError env (contextMenus b) i") (auto simp: contextMenus_create_menu)

lemma create_all_subset:
  "set (contextMenus (create_all env items b)) \<subseteq> set (contextMenus b) \<union> set items"
proof (induction items arbitrary: b)
  case Nil
  then show ?case by simp
next
  case (Cons i items)
  from Cons.IH [of "contextMenus_create env i createContextMenuErrorHandler b"]
    contextMenus_create_subset [of env i b]
  show ?case by auto
qed

lemma menu_accepted:
  assumes "removeAll_rejects env = None" and "accepts_items env"
  shows "contextMenus (snd (createContextMenus l env msg states gs b)) = requested l msg states gs"
  using assms by (simp add: createContextMenus_ok create_all_accepted)

lemma enabled_eq: "enabled states = (\<lambda>e. states (name (analyzer e)) \<noteq> Some False)"
  by (rule ext) (simp add: enabled_def)

lemma find_Some_holds: "find P xs = Some x \<Longrightarrow> x \<in> set xs \<and> P x"
  by (induction xs) (auto split: if_splits)

lemma allItems_first:
  assumes "es = pre @ e # post"
    and "\<forall>x\<in>set pre. \<not> (states (name (analyzer x)) \<noteq> Some False \<and> type x \<noteq> ''text'')"
    and "states (name (analyzer e)) \<noteq> Some False" and "type e \<noteq> ''text''"
  shows "allItems states es = [searchAllItem e]"
proof -
  have "find (\<lambda>e. enabled states e \<and> type e \<noteq> ''text'') (pre @ e # post) = Some e"
    using assms(2-4) by (induction pre) (auto simp: enabled_def)
  then show ?thesis by (simp add: allItems_def firstNonText_def assms(1))
qed

lemma allItems_nonempty:
  "allItems states es \<noteq> [] \<longleftrightarrow>
     (\<exists>e\<in>set es. states (name (analyzer e)) \<noteq> Some False \<and> type e \<noteq> ''text'')"
proof (cases "firstNonText states es")
  case None
  then have "allItems states es = []"
    by (simp add: allItems_def)
  moreover from None
  have "\<not> (\<exists>e\<in>set es. states (name (analyzer e)) \<noteq> Some False \<and> type e \<noteq> ''text'')"
    by (simp add: firstNonText_def find_None_iff enabled_def)
  ultimately show ?thesis by simp
next
  case (Some e)
  then have "allItems states es \<noteq> []"
    by (simp add: allItems_def)
  moreover from Some
  have "e \<in> set es \<and> states (name (analyzer e)) \<noteq> Some False \<and> type e \<noteq> ''text''"
    using find_Some_holds [of "\<lambda>e. enabled states e \<and> type e \<noteq> ''text''" es e]
    by (simp add: firstNonText_def enabled_def)
  ultimately show ?thesis by (intro iffI bexI [of _ e]) simp_all
qed

lemma allItems_length: "length (allItems states es) \<le> 1"
  by (simp add: allItems_def split: option.splits)

lemma filter_disabled:
  assumes "states n = Some False"
  shows "filter (enabled states) es =
         filter (\<lambda>e. name (analyzer e) \<noteq> n) (filter (enabled (states(n := None))) es)"
  using assms by (induction es) (auto simp: enabled_def)

lemmas example_defs =
  env_ok_def browser0_def VirusTotal_def ONYPHE_def example_searcherEntries_def
  example_scannerEntries_def example_message_def example_settings_def example_states_def
  example_command_def example_lib_def storage_empty_def storage_configured_def

lemmas item_defs =
  requested_def allItems_def firstNonText_def enabled_def searchItem_def searchAllItem_def
  scanItem_def

subsection \<open>Disabled searchers\<close>

text \<open>
  C2, as stated, fails: the settings below bind VirusTotal to \<open>false\<close>, the selector offers
  VirusTotal as a scanner, and the menu built still holds the scan item of VirusTotal.
  The loop over the scanner entries does not consult the searcher states.
\<close>

theorem disabled_scanner_kept:
  "example_states ''VirusTotal'' = Some False
   \<and> example_scannerEntries = [\<lparr>analyzer = VirusTotal, type = ''ip'', query = ''8.8.8.8''\<rparr>]
   \<and> \<lparr>contexts = [''selection''], menuItemId = ''Scan 8.8.8.8 as a ip on VirusTotal'',
       title = ''Scan this ip on VirusTotal''\<rparr>
      \<in> set (contextMenus (snd (createContextMenus example_lib env_ok example_message
                 example_states example_settings browser0)))"
  by (simp add: menu_accepted accepts_items_def example_defs item_defs)

text \<open>
  C2, amended: when the browser accepts the calls and a name \<open>n\<close> is bound to \<open>false\<close>,
  the search items of the menu are those built with the binding of \<open>n\<close> removed, less
  exactly the items of the entries whose analyzer is named \<open>n\<close>, in the same order; the
  entries of every other analyzer keep their items. The scan items are those of all
  scanner entries, whatever the searcher states say.
\<close>

theorem disabled_searcher_removed:
  assumes "removeAll_rejects env = None" and "accepts_items env"
    and "sE = getSearcherEntries (Selector_new l (selection msg) (enableIDN gs))"
    and "scE = getScannerEntries (Selector_new l (selection msg) (enableIDN gs))"
    and "states n = Some False"
  shows "contextMenus (snd (createContextMenus l env msg states gs b)) =
           map searchItem
             (filter (\<lambda>e. name (analyzer e) \<noteq> n)
                (filter (\<lambda>e. (states(n := None)) (name (analyzer e)) \<noteq> Some False) sE))
           @ allItems states sE @ map scanItem scE"
proof -
  have "contextMenus (snd (createContextMenus l env msg states gs b)) =
           map searchItem (filter (enabled states) sE) @ allItems states sE @ map scanItem scE"
    using menu_accepted [OF assms(1,2)] assms(3,4)
    by (simp add: requested_def Let_def)
  then show ?thesis
    unfolding filter_disabled [of states n sE, OF assms(5)] by (simp add: enabled_eq)
qed

theorem disabled_searcher_removed_witness:
  "example_states ''VirusTotal'' = Some False
   \<and> contextMenus (snd (createContextMenus example_lib env_ok example_message example_states
        example_settings browser0)) =
      [searchItem \<lparr>analyzer = ONYPHE, type = ''ip'', query = ''8.8.8.8''\<rparr>,
       searchAllItem \<lparr>analyzer = ONYPHE, type = ''ip'', query = ''8.8.8.8''\<rparr>,
       scanItem \<lparr>analyzer = VirusTotal, type = ''ip'', query = ''8.8.8.8''\<rparr>]"
  using disabled_searcher_removed [where env = env_ok and l = example_lib
      and msg = example_message and gs = example_settings and states = example_states
      and n = "''VirusTotal''" and b = browser0
      and sE = example_searcherEntries and scE = example_scannerEntries]
  by (simp add: accepts_items_def example_defs allItems_def firstNonText_def enabled_def)

subsection \<open>Default-on policy\<close>

text \<open>
  C5: when the browser accepts the calls, the menu built is the search items of exactly
  the searcher entries whose analyzer's name is not bound to \<open>false\<close>, then the items
  for a search on all, then the scan items of all scanner entries. So every entry, of
  the searchers and of the scanners, whose analyzer's name is not a key of the searcher
  states gets its item; a searcher entry without its item in the menu has its analyzer's
  name bound to \<open>false\<close>; and no scanner entry is skipped.
\<close>

theorem absent_name_is_enabled:
  assumes "removeAll_rejects env = None" and "accepts_items env"
    and "sE = getSearcherEntries (Selector_new l (selection msg) (enableIDN gs))"
    and "scE = getScannerEntries (Selector_new l (selection msg) (enableIDN gs))"
  shows "contextMenus (snd (createContextMenus l env msg states gs b)) =
           map searchItem (filter (\<lambda>x. states (name (analyzer x)) \<noteq> Some False) sE)
           @ allItems states sE @ map scanItem scE
         \<and> (\<forall>e\<in>set sE. states (name (analyzer e)) = None \<longrightarrow>
              searchItem e \<in> set (contextMenus (snd (createContextMenus l env msg states gs b))))
         \<and> (\<forall>e\<in>set scE. states (name (analyzer e)) = None \<longrightarrow>
              scanItem e \<in> set (contextMenus (snd (createContextMenus l env msg states gs b))))
         \<and> (\<forall>e\<in>set sE.
              searchItem e \<notin> set (contextMenus (snd (createContextMenus l env msg states gs b))) \<longrightarrow>
              states (name (analyzer e)) = Some False)
         \<and> (\<forall>e\<in>set scE.
              scanItem e \<in> set (contextMenus (snd (createContextMenus l env msg states gs b))))"
proof -
  have m: "contextMenus (snd (createContextMenus l env msg states gs b)) =
           map searchItem (filter (\<lambda>x. states (name (analyzer x)) \<noteq> Some False) sE)
           @ allItems states sE @ map scanItem scE"
    using menu_accepted [OF assms(1,2)] assms(3,4)
    by (simp add: requested_def Let_def enabled_eq)
  have s: "searchItem e \<in> set (contextMenus (snd (createContextMenus l env msg states gs b)))"
    if "e \<in> set sE" and "states (name (analyzer e)) \<noteq> Some False" for e
    using that unfolding m by simp
  have c: "scanItem e \<in> set (contextMenus (snd (createContextMenus l env msg states gs b)))"
    if "e \<in> set scE" for e
    using that unfolding m by simp
  show ?thesis
  proof (intro conjI ballI impI)
    show "contextMenus (snd (createContextMenus l env msg states gs b)) =
           map searchItem (filter (\<lambda>x. states (name (analyzer x)) \<noteq> Some False) sE)
           @ allItems states sE @ map scanItem scE"
      by (rule m)
  next
    fix e assume "e \<in> set sE" and "states (name (analyzer e)) = None"
    then show "searchItem e \<in> set (contextMenus (snd (createContextMenus l env msg states gs b)))"
      using s [of e] by simp
  next
    fix e assume "e \<in> set scE"
    then show "scanItem e \<in> set (contextMenus (snd (createContextMenus l env msg states gs b)))"
      by (rule c)
  next
    fix e assume "e \<in> set sE"
      and "searchItem e \<notin> set (contextMenus (snd (createContextMenus l env msg states gs b)))"
    then show "states (name (analyzer e)) = Some False"
      using s [of e] by blast
  next
    fix e assume "e \<in> set scE"
    then show "scanItem e \<in> set (contextMenus (snd (createContextMenus l env msg states gs b)))"
      by (rule c)
  qed
qed

theorem absent_name_is_enabled_witness:
  "example_states ''ONYPHE'' = None
   \<and> \<lparr>analyzer = ONYPHE, type = ''ip'', query = ''8.8.8.8''\<rparr> \<in> set example_searcherEntries
   \<and> \<lparr>contexts = [''selection''], menuItemId = ''Search 8.8.8.8 as a ip on ONYPHE'',
       title = ''Search this ip on ONYPHE''\<rparr>
      \<in> set (contextMenus (snd (createContextMenus example_lib env_ok example_message
                 example_states example_settings browser0)))
   \<and> \<lparr>analyzer = VirusTotal, type = ''ip'', query = ''8.8.8.8''\<rparr> \<in> set example_scannerEntries
   \<and> \<lparr>contexts = [''selection''], menuItemId = ''Scan 8.8.8.8 as a ip on VirusTotal'',
       title = ''Scan this ip on VirusTotal''\<rparr>
      \<in> set (contextMenus (snd (createContextMenus example_lib env_ok example_message
                 Map.empty example_settings browser0)))
   \<and> contextMenus (snd (createContextMenus example_lib env_ok example_message
        Map.empty example_settings browser0)) =
      [searchItem \<lparr>analyzer = VirusTotal, type = ''text'', query = ''8.8.8.8''\<rparr>,
       searchItem \<lparr>analyzer = VirusTotal, type = ''ip'', query = ''8.8.8.8''\<rparr>,
       searchItem \<lparr>analyzer = ONYPHE, type = ''ip'', query = ''8.8.8.8''\<rparr>,
       searchAllItem \<lparr>analyzer = VirusTotal, type = ''ip'', query = ''8.8.8.8''\<rparr>,
       scanItem \<lparr>analyzer = VirusTotal, type = ''ip'', query = ''8.8.8.8''\<rparr>]"
  using absent_name_is_enabled [where env = env_ok and l = example_lib
      and msg = example_message and gs = example_settings and states = example_states
      and b = browser0 and sE = example_searcherEntries and scE = example_scannerEntries,
      THEN conjunct1]
    absent_name_is_enabled [where env = env_ok and l = example_lib
      and msg = example_message and gs = example_settings and states = Map.empty
      and b = browser0 and sE = example_searcherEntries and scE = example_scannerEntries,
      THEN conjunct1]
  by (simp add: accepts_items_def example_defs item_defs)

subsection \<open>The item for a search on all\<close>

text \<open>
  C8: when the browser accepts the calls, the menu is the search items of the enabled
  entries, then the items for a search on all, then the scan items. There is at most one
  item for a search on all; there is one exactly when some enabled searcher entry has a
  type other than \<open>text\<close>; and it is built from the first such entry of the sequence
  returned by \<open>getSearcherEntries\<close>.
\<close>

theorem search_on_all_item:
  assumes "removeAll_rejects env = None" and "accepts_items env"
    and "sE = getSearcherEntries (Selector_new l (selection msg) (enableIDN gs))"
    and "scE = getScannerEntries (Selector_new l (selection msg) (enableIDN gs))"
  shows "contextMenus (snd (createContextMenus l env msg states gs b)) =
           map searchItem (filter (\<lambda>e. states (name (analyzer e)) \<noteq> Some False) sE)
           @ allItems states sE @ map scanItem scE
         \<and> length (allItems states sE) \<le> 1
         \<and> (allItems states sE \<noteq> [] \<longleftrightarrow>
              (\<exists>e\<in>set sE. states (name (analyzer e)) \<noteq> Some False \<and> type e \<noteq> ''text''))
         \<and> (\<forall>pre e post.
               sE = pre @ e # post
               \<and> (\<forall>x\<in>set pre. \<not> (states (name (analyzer x)) \<noteq> Some False \<and> type x \<noteq> ''text''))
               \<and> states (name (analyzer e)) \<noteq> Some False \<and> type e \<noteq> ''text''
               \<longrightarrow> allItems states sE = [searchAllItem e])"
proof -
  have "contextMenus (snd (createContextMenus l env msg states gs b)) =
           map searchItem (filter (\<lambda>e. states (name (analyzer e)) \<noteq> Some False) sE)
           @ allItems states sE @ map scanItem scE"
    using menu_accepted [OF assms(1,2)] assms(3,4)
    by (simp add: requested_def Let_def enabled_eq)
  moreover have "\<forall>pre e post.
               sE = pre @ e # post
               \<and> (\<forall>x\<in>set pre. \<not> (states (name (analyzer x)) \<noteq> Some False \<and> type x \<noteq> ''text''))
               \<and> states (name (analyzer e)) \<noteq> Some False \<and> type e \<noteq> ''text''
               \<longrightarrow> allItems states sE = [searchAllItem e]"
    by (intro allI impI) (rule allItems_first [of sE _ _ _ states], auto)
  ultimately show ?thesis
    using allItems_length [of states sE] allItems_nonempty [of states sE] by simp
qed

theorem search_on_all_item_witness:
  "allItems example_states example_searcherEntries =
     [\<lparr>contexts = [''selection''], menuItemId = ''Search 8.8.8.8 as a ip on all'',
       title = ''Search this ip on all''\<rparr>]
   \<and> map menuItemId (contextMenus (snd (createContextMenus example_lib env_ok example_message
        example_states example_settings browser0))) =
      [''Search 8.8.8.8 as a ip on ONYPHE'', ''Search 8.8.8.8 as a ip on all'',
       ''Scan 8.8.8.8 as a ip on VirusTotal'']"
  using search_on_all_item [where env = env_ok and l = example_lib
      and msg = example_message and gs = example_settings and states = example_states
      and b = browser0 and sE = example_searcherEntries and scE = example_scannerEntries,
      THEN conjunct1]
  by (simp add: accepts_items_def example_defs item_defs)

subsection \<open>Rebuilding the menu\<close>

text \<open>
  C9, as stated, fails when two invocations overlap. The invocation for the selection
  \<open>1.1.1.1\<close> has called \<open>removeAll\<close> and is suspended; the invocation for \<open>8.8.8.8\<close>
  then calls \<open>removeAll\<close> and is suspended in turn; the first resumes and creates its
  entries, then the second resumes and creates its own. When the second invocation
  completes, the entries of the previous selection are still in the menu.
\<close>

theorem overlapping_builds_keep_entries:
  "selection earlier_message = ''1.1.1.1''
   \<and> selection example_message = ''8.8.8.8''
   \<and> createContextMenus_interleaved lib_by_text env_ok example_message Map.empty example_settings
        (createContextMenus_resume lib_by_text env_ok earlier_message Map.empty example_settings)
        (snd (contextMenus_removeAll env_ok browser0)) =
      (Inr (),
       browser0\<lparr>contextMenus :=
         [\<lparr>contexts = [''selection''], menuItemId = ''Search 1.1.1.1 as a ip on ONYPHE'',
           title = ''Search this ip on ONYPHE''\<rparr>,
          \<lparr>contexts = [''selection''], menuItemId = ''Search 1.1.1.1 as a ip on all'',
           title = ''Search this ip on all''\<rparr>,
          \<lparr>contexts = [''selection''], menuItemId = ''Search 8.8.8.8 as a ip on ONYPHE'',
           title = ''Search this ip on ONYPHE''\<rparr>,
          \<lparr>contexts = [''selection''], menuItemId = ''Search 8.8.8.8 as a ip on all'',
           title = ''Search this ip on all''\<rparr>]\<rparr>)"
  by (simp add: createContextMenus_interleaved_def createContextMenus_resume_def
      contextMenus_removeAll_def contextMenus_create_def createContextMenuErrorHandler_def
      Let_def lib_by_text_def earlier_message_def example_defs)

text \<open>
  C9, amended: every invocation of \<open>createContextMenus\<close> removes all existing entries
  before it creates any (the browser it leaves is the one in which the menu was emptied
  first and the items derived from the selected text and the settings were asked for
  last), and it creates nothing when the removal is rejected. If no other handler adds
  menu entries while the invocation is suspended at the \<open>await\<close> of \<open>removeAll\<close>, in
  particular if none runs, then after the invocation the menu holds only items derived
  from the current selection and settings, no entry from before the invocation survives,
  and the menu is exactly these items when the browser accepts them.
\<close>

theorem rebuild_replaces_menu:
  "(removeAll_rejects env = None \<longrightarrow>
      createContextMenus_interleaved l env msg states gs during b =
        (Inr (), create_all env (requested l msg states gs) (during (b\<lparr>contextMenus := []\<rparr>)))
      \<and> createContextMenus_interleaved l env msg states gs during (b\<lparr>contextMenus := old\<rparr>) =
          createContextMenus_interleaved l env msg states gs during b
      \<and> (contextMenus (during (b\<lparr>contextMenus := []\<rparr>)) = [] \<longrightarrow>
           set (contextMenus (snd (createContextMenus_interleaved l env msg states gs during b)))
             \<subseteq> set (requested l msg states gs)
           \<and> (accepts_items env \<longrightarrow>
                contextMenus (snd (createContextMenus_interleaved l env msg states gs during b)) =
                  requested l msg states gs))
      \<and> createContextMenus l env msg states gs b =
          (Inr (), create_all env (requested l msg states gs) (b\<lparr>contextMenus := []\<rparr>))
      \<and> set (contextMenus (snd (createContextMenus l env msg states gs b)))
           \<subseteq> set (requested l msg states gs)
      \<and> contextMenus (snd (createContextMenus l env msg states gs (b\<lparr>contextMenus := old\<rparr>))) =
          contextMenus (snd (createContextMenus l env msg states gs b))
      \<and> (accepts_items env \<longrightarrow>
           contextMenus (snd (createContextMenus l env msg states gs b)) =
             requested l msg states gs))
   \<and> (removeAll_rejects env = Some e \<longrightarrow>
        createContextMenus_interleaved l env msg states gs during b = (Inl e, b)
        \<and> createContextMenus l env msg states gs b = (Inl e, b))"
proof (intro conjI impI)
  assume ok: "removeAll_rejects env = None"
  show "createContextMenus_interleaved l env msg states gs during b =
        (Inr (), create_all env (requested l msg states gs) (during (b\<lparr>contextMenus := []\<rparr>)))"
    by (rule createContextMenus_interleaved_ok [OF ok])
  show "createContextMenus_interleaved l env msg states gs during (b\<lparr>contextMenus := old\<rparr>) =
          createContextMenus_interleaved l env msg states gs during b"
    by (simp add: createContextMenus_interleaved_ok [OF ok])
  show "createContextMenus l env msg states gs b =
        (Inr (), create_all env (requested l msg states gs) (b\<lparr>contextMenus := []\<rparr>))"
    by (rule createContextMenus_ok [OF ok])
  show "set (contextMenus (snd (createContextMenus l env msg states gs b)))
           \<subseteq> set (requested l msg states gs)"
    using create_all_subset [of env "requested l msg states gs" "b\<lparr>contextMenus := []\<rparr>"]
    by (simp add: createContextMenus_ok [OF ok])
  show "contextMenus (snd (createContextMenus l env msg states gs (b\<lparr>contextMenus := old\<rparr>))) =
          contextMenus (snd (createContextMenus l env msg states gs b))"
    by (simp add: createContextMenus_ok [OF ok])
  show "contextMenus (snd (createContextMenus l env msg states gs b)) = requested l msg states gs"
    if "accepts_items env"
    by (rule menu_accepted [OF ok that])
next
  assume ok: "removeAll_rejects env = None"
    and quiet: "contextMenus (during (b\<lparr>contextMenus := []\<rparr>)) = []"
  show "set (contextMenus (snd (createContextMenus_interleaved l env msg states gs during b)))
             \<subseteq> set (requested l msg states gs)"
    using create_all_subset [of env "requested l msg states gs" "during (b\<lparr>contextMenus := []\<rparr>)"]
      quiet
    by (simp add: createContextMenus_interleaved_ok [OF ok])
  show "contextMenus (snd (createContextMenus_interleaved l env msg states gs during b)) =
          requested l msg states gs"
    if "accepts_items env"
    using quiet
    by (simp add: createContextMenus_interleaved_ok [OF ok] create_all_accepted [OF that])
next
  assume "removeAll_rejects env = Some e"
  then show "createContextMenus_interleaved l env msg states gs during b = (Inl e, b)"
    by (rule createContextMenus_interleaved_rejected)
next
  assume "removeAll_rejects env = Some e"
  then show "createContextMenus l env msg states gs b = (Inl e, b)"
    by (rule createContextMenus_rejected)
qed

theorem rebuild_replaces_menu_witness:
  "contextMenus (snd (createContextMenus example_lib env_ok example_message Map.empty
     example_settings
     (browser0\<lparr>contextMenus :=
        [searchItem \<lparr>analyzer = ONYPHE, type = ''ip'', query = ''1.1.1.1''\<rparr>]\<rparr>))) =
     [searchItem \<lparr>analyzer = VirusTotal, type = ''text'', query = ''8.8.8.8''\<rparr>,
      searchItem \<lparr>analyzer = VirusTotal, type = ''ip'', query = ''8.8.8.8''\<rparr>,
      searchItem \<lparr>analyzer = ONYPHE, type = ''ip'', query = ''8.8.8.8''\<rparr>,
      searchAllItem \<lparr>analyzer = VirusTotal, type = ''ip'', query = ''8.8.8.8''\<rparr>,
      scanItem \<lparr>analyzer = VirusTotal, type = ''ip'', query = ''8.8.8.8''\<rparr>]
   \<and> contextMenus (snd (createContextMenus_interleaved lib_by_text env_ok example_message
        Map.empty example_settings click_during
        (browser0\<lparr>contextMenus :=
           [searchItem \<lparr>analyzer = ONYPHE, type = ''ip'', query = ''1.1.1.1''\<rparr>]\<rparr>))) =
     [searchItem \<lparr>analyzer = ONYPHE, type = ''ip'', query = ''8.8.8.8''\<rparr>,
      searchAllItem \<lparr>analyzer = ONYPHE, type = ''ip'', query = ''8.8.8.8''\<rparr>]"
  using rebuild_replaces_menu [where env = env_ok and l = example_lib
      and msg = example_message and gs = example_settings and states = Map.empty
      and during = "\<lambda>b. b"
      and b = "browser0\<lparr>contextMenus :=
        [searchItem \<lparr>analyzer = ONYPHE, type = ''ip'', query = ''1.1.1.1''\<rparr>]\<rparr>"]
    rebuild_replaces_menu [where env = env_ok and l = lib_by_text
      and msg = example_message and gs = example_settings and states = Map.empty
      and during = click_during
      and b = "browser0\<lparr>contextMenus :=
        [searchItem \<lparr>analyzer = ONYPHE, type = ''ip'', query = ''1.1.1.1''\<rparr>]\<rparr>"]
  by (simp add: accepts_items_def example_defs lib_by_text_def allItems_def firstNonText_def
      enabled_def requested_def contextMenus_create_menu click_during_def search_def
      try_catch_def search_try_def tabs_create_def searchByIP_def)

subsection \<open>The dispatch functions\<close>

lemma showNotification_accepted:
  assumes "notifications_create_rejects env (mitakaNotification m) = None"
  shows "showNotification env m b =
           (Inr (), b\<lparr>notifications := notifications b @ [mitakaNotification m]\<rparr>)"
  using assms
  by (simp add: showNotification_def notifications_create_def mitakaNotification_def)

lemma showNotification_storage: "storage_sync (snd (showNotification env m b)) = storage_sync b"
  by (simp add: showNotification_def notifications_create_def split: option.splits)

lemma tabs_create_storage: "storage_sync (snd (tabs_create env url b)) = storage_sync b"
  by (simp add: tabs_create_def split: option.splits)

lemma open_tabs_accepted:
  "\<forall>u\<in>set urls. tabs_create_rejects env u = None \<Longrightarrow>
   open_tabs env urls b = (Inr (), b\<lparr>tabs := tabs b @ urls\<rparr>)"
  by (induction urls arbitrary: b) (simp_all add: tabs_create_def)

lemma open_tabs_storage: "storage_sync (snd (open_tabs env urls b)) = storage_sync b"
proof (induction urls arbitrary: b)
  case Nil
  then show ?case by simp
next
  case (Cons u urls)
  show ?case
  proof (cases "tabs_create_rejects env u")
    case None
    then show ?thesis
      using Cons.IH [of "b\<lparr>tabs := tabs b @ [u]\<rparr>"] by (simp add: tabs_create_def)
  next
    case (Some e)
    then show ?thesis by (simp add: tabs_create_def)
  qed
qed

lemma try_catch_storage:
  assumes "\<And>b. storage_sync (snd (body b)) = storage_sync b"
    and "\<And>e b. storage_sync (snd (handler e b)) = storage_sync b"
  shows "storage_sync (snd (try_catch body handler b)) = storage_sync b"
proof (cases "body b")
  case (Pair r b')
  with assms(1) [of b] have s: "storage_sync b' = storage_sync b" by simp
  show ?thesis
  proof (cases r)
    case (Inl e)
    with Pair s assms(2) [of e b'] show ?thesis by (simp add: try_catch_def)
  next
    case (Inr v)
    with Pair s show ?thesis by (simp add: try_catch_def)
  qed
qed

lemma search_try_storage: "storage_sync (snd (search_try l env c b)) = storage_sync b"
  by (simp add: search_try_def tabs_create_storage split: sum.splits)

lemma scan_try_storage: "storage_sync (snd (scan_try l env c keys b)) = storage_sync b"
  by (simp add: scan_try_def tabs_create_storage split: sum.splits)

lemma searchAll_try_storage: "storage_sync (snd (searchAll_try l env c b)) = storage_sync b"
  by (simp add: searchAll_try_def storage_sync_get_def open_tabs_storage
      split: sum.splits option.splits)

lemma search_storage: "storage_sync (snd (search l env c b)) = storage_sync b"
  unfolding search_def
  by (rule try_catch_storage) (simp_all add: search_try_storage showNotification_storage)

lemma searchAll_storage: "storage_sync (snd (searchAll l env c b)) = storage_sync b"
  unfolding searchAll_def
  by (rule try_catch_storage) (simp_all add: searchAll_try_storage showNotification_storage)

lemma scan_storage: "storage_sync (snd (scan l env c b)) = storage_sync b"
proof (cases "getApiKeys l (storage_sync b)")
  case (Inl e)
  then show ?thesis by (simp add: scan_def)
next
  case (Inr keys)
  have "storage_sync (snd (try_catch (scan_try l env c keys)
          (\<lambda>err. showNotification env (message err)) b)) = storage_sync b"
    by (rule try_catch_storage) (simp_all add: scan_try_storage showNotification_storage)
  with Inr show ?thesis by (simp add: scan_def)
qed


lemma scan_url:
  assumes "getApiKeys l (storage_sync b) = Inr keys" and "Command_scan l c keys = Inr url"
  shows "url = '''' \<Longrightarrow> scan l env c b = (Inr (), b)"
    and "url \<noteq> '''' \<Longrightarrow> tabs_create_rejects env url = None \<Longrightarrow>
         scan l env c b = (Inr (), b\<lparr>tabs := tabs b @ [url]\<rparr>)"
  using assms by (simp_all add: scan_def try_catch_def scan_try_def tabs_create_def)

lemma searchAll_urls:
  assumes "storage_get_rejects env ''searcherStates'' = None"
    and "Command_searchAll l c (statesOf (storage_sync b)) = Inr urls"
    and "\<forall>u\<in>set urls. tabs_create_rejects env u = None"
  shows "searchAll l env c b = (Inr (), b\<lparr>tabs := tabs b @ urls\<rparr>)"
  using assms(1,2) open_tabs_accepted [OF assms(3), of b]
  by (simp add: searchAll_def try_catch_def searchAll_try_def storage_sync_get_def statesOf_def)

lemma caught:
  assumes "\<forall>opts. notifications_create_rejects env opts = None"
  shows "body b = (Inl e, b') \<Longrightarrow>
         try_catch body (\<lambda>err. showNotification env (message err)) b =
           (Inr (), b'\<lparr>notifications := notifications b' @ [mitakaNotification (message e)]\<rparr>)"
    and "fst (try_catch body (\<lambda>err. showNotification env (message err)) b) = Inr ()"
proof -
  have n: "showNotification env m b' =
           (Inr (), b'\<lparr>notifications := notifications b' @ [mitakaNotification m]\<rparr>)" for m b'
    using assms by (simp add: showNotification_accepted)
  show "body b = (Inl e, b') \<Longrightarrow>
         try_catch body (\<lambda>err. showNotification env (message err)) b =
           (Inr (), b'\<lparr>notifications := notifications b' @ [mitakaNotification (message e)]\<rparr>)"
    by (simp add: try_catch_def n)
  show "fst (try_catch body (\<lambda>err. showNotification env (message err)) b) = Inr ()"
    by (cases "body b") (simp add: try_catch_def n split: sum.splits)
qed

subsection \<open>The empty URL\<close>



subsection \<open>Exceptions\<close>

text \<open>
  C4, as stated, fails. An exception raised by \<open>showNotification\<close> itself, inside the
  \<open>catch\<close> clause, leaves \<open>search\<close>: here the command throws, the browser refuses the
  notification, and \<open>search\<close> is rejected with the browser's error. And \<open>scan\<close> awaits
  \<open>getApiKeys\<close> before its \<open>try\<close> block: when that call throws, \<open>scan\<close> is rejected
  with its error and no notification is shown, although the browser would accept one.
\<close>

theorem exception_leaves_handler:
  "search lib_throwing env_no_notifications example_command browser0 =
     (Inl (Error ''notifications unavailable''), browser0)
   \<and> scan lib_no_keys env_ok example_command browser0 =
     (Inl (Error ''storage unavailable''), browser0)"
  by (simp add: search_def scan_def try_catch_def search_try_def showNotification_def
      notifications_create_def lib_throwing_def lib_no_keys_def example_lib_def
      env_no_notifications_def env_ok_def)

text \<open>
  C4, amended: when the browser accepts notifications, every exception raised inside the
  \<open>try\<close> block of \<open>search\<close>, \<open>searchAll\<close> or \<open>scan\<close> (the result \<open>Inl e\<close> of the
  block: thrown by the command's method, by the storage read of \<open>searchAll\<close> or by the
  creation of a tab) is caught there and answered by one notification whose message is
  the message of the error, after which the function completes. \<open>search\<close> and
  \<open>searchAll\<close> then never end in an exception, and neither does \<open>scan\<close> once
  \<open>getApiKeys\<close> has returned the keys.
\<close>

theorem exceptions_of_try_notified:
  assumes "\<forall>opts. notifications_create_rejects env opts = None"
  shows "(search_try l env c b = (Inl e, b') \<longrightarrow>
            search l env c b =
              (Inr (), b'\<lparr>notifications := notifications b' @ [mitakaNotification (message e)]\<rparr>))
         \<and> (searchAll_try l env c b = (Inl e, b') \<longrightarrow>
            searchAll l env c b =
              (Inr (), b'\<lparr>notifications := notifications b' @ [mitakaNotification (message e)]\<rparr>))
         \<and> (getApiKeys l (storage_sync b) = Inr keys \<and> scan_try l env c keys b = (Inl e, b') \<longrightarrow>
            scan l env c b =
              (Inr (), b'\<lparr>notifications := notifications b' @ [mitakaNotification (message e)]\<rparr>))
         \<and> (Command_search l c = Inl e \<longrightarrow> search_try l env c b = (Inl e, b))
         \<and> (Command_searchAll l c (statesOf (storage_sync b)) = Inl e
             \<and> storage_get_rejects env ''searcherStates'' = None \<longrightarrow>
            searchAll_try l env c b = (Inl e, b))
         \<and> (Command_scan l c keys = Inl e \<longrightarrow> scan_try l env c keys b = (Inl e, b))
         \<and> notification_message (mitakaNotification (message e)) = message e
         \<and> fst (search l env c b) = Inr ()
         \<and> fst (searchAll l env c b) = Inr ()
         \<and> (getApiKeys l (storage_sync b) = Inr keys \<longrightarrow> fst (scan l env c b) = Inr ())"
proof (intro conjI impI)
  show "search l env c b =
          (Inr (), b'\<lparr>notifications := notifications b' @ [mitakaNotification (message e)]\<rparr>)"
    if "search_try l env c b = (Inl e, b')"
    unfolding search_def by (rule caught(1) [where body = "search_try l env c", OF assms that])
  show "searchAll l env c b =
          (Inr (), b'\<lparr>notifications := notifications b' @ [mitakaNotification (message e)]\<rparr>)"
    if "searchAll_try l env c b = (Inl e, b')"
    unfolding searchAll_def
    by (rule caught(1) [where body = "searchAll_try l env c", OF assms that])
  show "scan l env c b =
          (Inr (), b'\<lparr>notifications := notifications b' @ [mitakaNotification (message e)]\<rparr>)"
    if "getApiKeys l (storage_sync b) = Inr keys \<and> scan_try l env c keys b = (Inl e, b')"
    using that caught(1) [where body = "scan_try l env c keys" and b = b and e = e and b' = b',
        OF assms]
    by (simp add: scan_def)
  show "search_try l env c b = (Inl e, b)" if "Command_search l c = Inl e"
    using that by (simp add: search_try_def)
  show "searchAll_try l env c b = (Inl e, b)"
    if "Command_searchAll l c (statesOf (storage_sync b)) = Inl e
        \<and> storage_get_rejects env ''searcherStates'' = None"
    using that by (simp add: searchAll_try_def storage_sync_get_def statesOf_def)
  show "scan_try l env c keys b = (Inl e, b)" if "Command_scan l c keys = Inl e"
    using that by (simp add: scan_try_def)
  show "notification_message (mitakaNotification (message e)) = message e"
    by (simp add: mitakaNotification_def)
  show "fst (search l env c b) = Inr ()"
    unfolding search_def by (rule caught(2) [where body = "search_try l env c", OF assms])
  show "fst (searchAll l env c b) = Inr ()"
    unfolding searchAll_def by (rule caught(2) [where body = "searchAll_try l env c", OF assms])
  show "fst (scan l env c b) = Inr ()" if "getApiKeys l (storage_sync b) = Inr keys"
    using that caught(2) [where body = "scan_try l env c keys" and b = b, OF assms]
    by (simp add: scan_def)
qed

theorem exceptions_of_try_notified_witness:
  "Command_search lib_throwing example_command = Inl (Error ''boom'')
   \<and> search lib_throwing env_ok example_command browser0 =
       (Inr (), browser0\<lparr>notifications := [mitakaNotification ''boom'']\<rparr>)
   \<and> searchAll lib_throwing env_ok example_command browser0 =
       (Inr (), browser0\<lparr>notifications := [mitakaNotification ''boom'']\<rparr>)
   \<and> scan lib_throwing env_ok example_command browser0 =
       (Inr (), browser0\<lparr>notifications := [mitakaNotification ''boom'']\<rparr>)"
  using exceptions_of_try_notified [where env = env_ok and l = lib_throwing
      and c = example_command and b = browser0 and e = "Error ''boom''" and b' = browser0
      and keys = Map.empty]
  by (simp add: lib_throwing_def example_defs statesOf_def)

subsection \<open>Configuration\<close>

text \<open>
  C6: no dispatch function changes the stored configuration, and each invocation works
  on the configuration stored when it runs. Whatever was stored during an earlier
  invocation (\<open>s\<close>), an invocation of \<open>searchAll\<close> made after the configuration has
  become \<open>s'\<close> hands to \<open>Command.searchAll\<close> the states of \<open>s'\<close> and opens the URLs
  computed from them, and an invocation of \<open>scan\<close> hands to \<open>Command.scan\<close> the keys
  that \<open>getApiKeys\<close> returns for \<open>s'\<close>.
\<close>

theorem configuration_read_fresh:
  "storage_sync (snd (search l env c b)) = storage_sync b
   \<and> storage_sync (snd (searchAll l env c b)) = storage_sync b
   \<and> storage_sync (snd (scan l env c b)) = storage_sync b
   \<and> (storage_get_rejects env ''searcherStates'' = None
       \<and> Command_searchAll l c (statesOf s') = Inr urls
       \<and> (\<forall>u\<in>set urls. tabs_create_rejects env u = None) \<longrightarrow>
       searchAll l env c ((snd (searchAll l env c' (b\<lparr>storage_sync := s\<rparr>)))\<lparr>storage_sync := s'\<rparr>) =
         (Inr (), (snd (searchAll l env c' (b\<lparr>storage_sync := s\<rparr>)))
                    \<lparr>storage_sync := s',
                     tabs := tabs (snd (searchAll l env c' (b\<lparr>storage_sync := s\<rparr>))) @ urls\<rparr>))
   \<and> (getApiKeys l s' = Inr keys \<and> Command_scan l c keys = Inr url \<and> url \<noteq> ''''
       \<and> tabs_create_rejects env url = None \<longrightarrow>
       scan l env c ((snd (scan l env c' (b\<lparr>storage_sync := s\<rparr>)))\<lparr>storage_sync := s'\<rparr>) =
         (Inr (), (snd (scan l env c' (b\<lparr>storage_sync := s\<rparr>)))
                    \<lparr>storage_sync := s',
                     tabs := tabs (snd (scan l env c' (b\<lparr>storage_sync := s\<rparr>))) @ [url]\<rparr>))"
proof (intro conjI impI)
  show "storage_sync (snd (search l env c b)) = storage_sync b"
    by (rule search_storage)
  show "storage_sync (snd (searchAll l env c b)) = storage_sync b"
    by (rule searchAll_storage)
  show "storage_sync (snd (scan l env c b)) = storage_sync b"
    by (rule scan_storage)
next
  assume a: "storage_get_rejects env ''searcherStates'' = None
       \<and> Command_searchAll l c (statesOf s') = Inr urls
       \<and> (\<forall>u\<in>set urls. tabs_create_rejects env u = None)"
  show "searchAll l env c ((snd (searchAll l env c' (b\<lparr>storage_sync := s\<rparr>)))\<lparr>storage_sync := s'\<rparr>) =
         (Inr (), (snd (searchAll l env c' (b\<lparr>storage_sync := s\<rparr>)))
                    \<lparr>storage_sync := s',
                     tabs := tabs (snd (searchAll l env c' (b\<lparr>storage_sync := s\<rparr>))) @ urls\<rparr>)"
    using a
      searchAll_urls [of env l c
        "(snd (searchAll l env c' (b\<lparr>storage_sync := s\<rparr>)))\<lparr>storage_sync := s'\<rparr>" urls]
    by simp
next
  assume a: "getApiKeys l s' = Inr keys \<and> Command_scan l c keys = Inr url \<and> url \<noteq> ''''
       \<and> tabs_create_rejects env url = None"
  show "scan l env c ((snd (scan l env c' (b\<lparr>storage_sync := s\<rparr>)))\<lparr>storage_sync := s'\<rparr>) =
         (Inr (), (snd (scan l env c' (b\<lparr>storage_sync := s\<rparr>)))
                    \<lparr>storage_sync := s',
                     tabs := tabs (snd (scan l env c' (b\<lparr>storage_sync := s\<rparr>))) @ [url]\<rparr>)"
    using a
      scan_url(2) [of l "(snd (scan l env c' (b\<lparr>storage_sync := s\<rparr>)))\<lparr>storage_sync := s'\<rparr>"
        keys c url env]
    by simp
qed

theorem configuration_read_fresh_witness:
  "tabs (snd (searchAll example_lib env_ok example_command
            (browser0\<lparr>storage_sync := storage_empty\<rparr>))) =
     [''https://www.onyphe.io/ip/8.8.8.8'', ''https://www.virustotal.com/ip/8.8.8.8'']
   \<and> tabs (snd (searchAll example_lib env_ok example_command
            ((snd (searchAll example_lib env_ok example_command
                     (browser0\<lparr>storage_sync := storage_empty\<rparr>)))
             \<lparr>storage_sync := storage_configured\<rparr>))) =
     [''https://www.onyphe.io/ip/8.8.8.8'', ''https://www.virustotal.com/ip/8.8.8.8'',
      ''https://www.onyphe.io/ip/8.8.8.8'']
   \<and> tabs (snd (scan example_lib env_ok example_command
            (browser0\<lparr>storage_sync := storage_empty\<rparr>))) = []
   \<and> tabs (snd (scan example_lib env_ok example_command
            ((snd (scan example_lib env_ok example_command
                     (browser0\<lparr>storage_sync := storage_empty\<rparr>)))
             \<lparr>storage_sync := storage_configured\<rparr>))) =
     [''https://www.virustotal.com/ip/8.8.8.8'']"
proof -
  have first_all: "searchAll example_lib env_ok example_command
            (browser0\<lparr>storage_sync := storage_empty\<rparr>) =
          (Inr (), browser0\<lparr>storage_sync := storage_empty,
             tabs := [''https://www.onyphe.io/ip/8.8.8.8'',
                      ''https://www.virustotal.com/ip/8.8.8.8'']\<rparr>)"
    by (simp add: searchAll_def try_catch_def searchAll_try_def storage_sync_get_def
        tabs_create_def example_defs searchByIP_def)
  have first_scan: "scan example_lib env_ok example_command
            (browser0\<lparr>storage_sync := storage_empty\<rparr>) =
          (Inr (), browser0\<lparr>storage_sync := storage_empty,
             notifications := [mitakaNotification ''Please set your VirusTotal API key'']\<rparr>)"
    by (simp add: scan_def try_catch_def scan_try_def showNotification_def
        notifications_create_def mitakaNotification_def example_defs)
  show ?thesis
    using configuration_read_fresh [where l = example_lib and env = env_ok
        and c = example_command and c' = example_command and b = browser0
        and s = storage_empty and s' = storage_configured
        and urls = "[''https://www.onyphe.io/ip/8.8.8.8'']"
        and keys = "[''VirusTotal'' \<mapsto> ''secret'']"
        and url = "''https://www.virustotal.com/ip/8.8.8.8''"]
    unfolding first_all first_scan
    by (simp add: example_defs statesOf_def searchByIP_def)
qed

subsection \<open>Unrecognised actions\<close>

text \<open>
  C10: when the menu id parses to a command whose action is neither \<open>search\<close> nor
  \<open>scan\<close>, the click listener completes and leaves the browser as it was: no tab, no
  notification, no other change.
\<close>

theorem unknown_action_ignored:
  assumes "Command_new l i = Inr c" and "action c \<noteq> ''search''" and "action c \<noteq> ''scan''"
  shows "onClicked l env i b = (Inr (), b)"
  using assms by (simp add: onClicked_def)

theorem unknown_action_ignored_witness:
  "Command_new example_lib ''Open 8.8.8.8 as a ip on ONYPHE'' =
     Inr (example_command\<lparr>action := ''open''\<rparr>)
   \<and> onClicked example_lib env_ok ''Open 8.8.8.8 as a ip on ONYPHE'' browser0 = (Inr (), browser0)"
  using unknown_action_ignored [where l = example_lib and env = env_ok and b = browser0
      and i = "''Open 8.8.8.8 as a ip on ONYPHE''" and c = "example_command\<lparr>action := ''open''\<rparr>"]
  by (simp add: example_lib_def example_command_def)

subsection \<open>ONYPHE\<close>

text \<open>
  C7: for every query string, \<open>searchByIP\<close> of the ONYPHE searcher returns exactly
  \<open>https://www.onyphe.io/ip/\<close> followed by the query. The function is total and has no
  error result, and it takes and returns no state.
\<close>

theorem ONYPHE_searchByIP: "searchByIP ONYPHE q = ''https://www.onyphe.io/ip/'' @ q"
  by (simp add: searchByIP_def ONYPHE_def)

end
